theory Spec2Isabelle
  imports Complex_Main
begin

section \<open>Data model of the velocity calculator\<close>

text \<open>
  The development embeds \<^verbatim>\<open>backend/tension_detector/velocity_calculator.py\<close>
  (class \<^verbatim>\<open>VelocityCalculator\<close>). Python floats are modelled as the real
  numbers, Python ints as \<open>int\<close> or \<open>nat\<close>, dictionaries with a fixed set of keys
  as records, and a key that some producers omit as an \<open>option\<close> field. An exception
  is a value \<open>Inl e\<close> of a sum type.
\<close>

datatype error = IndexError | KeyError

text \<open>
  One element of the list built by \<^verbatim>\<open>calculate_joint_velocities\<close>: the keys
  \<^verbatim>\<open>'frame'\<close>, \<^verbatim>\<open>'timestamp'\<close>, \<^verbatim>\<open>'velocity'\<close> and
  \<^verbatim>\<open>'position'\<close>. The position is the coordinate triple of the current frame;
  \<open>None\<close> stands for a dictionary without that key or with a value that is neither a
  list nor a tuple, which \<^verbatim>\<open>detect_reps_from_bar_movement\<close> tests for.
\<close>

record velocity_data =
  frame :: int
  timestamp :: real
  velocity :: real
  position :: "(real \<times> real \<times> real) option"

subsection \<open>Helpers for Python and numpy primitives\<close>

text \<open>\<^verbatim>\<open>xs[a:b]\<close> for indices \<open>0 \<le> a\<close> and \<open>0 \<le> b\<close>.\<close>

definition slice :: "'a list \<Rightarrow> nat \<Rightarrow> nat \<Rightarrow> 'a list" where
  "slice xs a b = take (b - a) (drop a xs)"

text \<open>
  \<^verbatim>\<open>np.mean\<close> and \<^verbatim>\<open>sum(xs) / len(xs)\<close>. Every call below passes a
  non-empty list.
\<close>

definition np_mean :: "real list \<Rightarrow> real" where
  "np_mean xs = sum_list xs / real (length xs)"

text \<open>\<^verbatim>\<open>max(xs)\<close> and \<^verbatim>\<open>min(xs)\<close> of a non-empty list.\<close>

fun py_max :: "real list \<Rightarrow> real" where
  "py_max [] = 0"
| "py_max (x # xs) = fold max xs x"

fun py_min :: "real list \<Rightarrow> real" where
  "py_min [] = 0"
| "py_min (x # xs) = fold min xs x"

section \<open>Velocity extraction\<close>

text \<open>
  \<^verbatim>\<open>
  def calculate_velocity(self, pos1, pos2, time_diff):
      if time_diff == 0:
          return 0.0
      distance = np.sqrt((pos2[0] - pos1[0])**2 + (pos2[1] - pos1[1])**2 + (pos2[2] - pos1[2])**2)
      return distance / time_diff
  \<close>
\<close>

definition calculate_velocity :: "real \<times> real \<times> real \<Rightarrow> real \<times> real \<times> real \<Rightarrow> real \<Rightarrow> real" where
  "calculate_velocity pos1 pos2 time_diff =
     (if time_diff = 0 then 0
      else let distance = sqrt ((fst pos2 - fst pos1)\<^sup>2
                              + (fst (snd pos2) - fst (snd pos1))\<^sup>2
                              + (snd (snd pos2) - snd (snd pos1))\<^sup>2)
           in distance / time_diff)"


section \<open>Smoothing\<close>

text \<open>
  \<^verbatim>\<open>
  def _smooth_velocity_data(self, velocities, window_size=5):
      if len(velocities) < window_size:
          return velocities
      smoothed = []
      for i in range(len(velocities)):
          start_idx = max(0, i - window_size // 2)
          end_idx = min(len(velocities), i + window_size // 2 + 1)
          window_velocities = [v['velocity'] for v in velocities[start_idx:end_idx]]
          smoothed_velocity = np.mean(window_velocities)
          smoothed.append({**velocities[i], 'velocity': smoothed_velocity})
      return smoothed
  \<close>
  The window size is a natural number: the only caller passes the
  \<^verbatim>\<open>'smoothing_window'\<close> entry of an exercise profile, and the profiles hold
  2 to 8. The start index is computed in the integers and clipped at 0 as in the source.
\<close>

definition smooth_at :: "velocity_data list \<Rightarrow> nat \<Rightarrow> nat \<Rightarrow> velocity_data" where
  "smooth_at velocities window_size i =
     (let start_idx = nat (max 0 (int i - int (window_size div 2)));
          end_idx = min (length velocities) (i + window_size div 2 + 1);
          window_velocities = map velocity (slice velocities start_idx end_idx);
          smoothed_velocity = np_mean window_velocities
      in (velocities ! i)\<lparr>velocity := smoothed_velocity\<rparr>)"

definition smooth_velocity_data :: "velocity_data list \<Rightarrow> nat \<Rightarrow> velocity_data list" where
  "smooth_velocity_data velocities window_size =
     (if length velocities < window_size then velocities
      else map (smooth_at velocities window_size) [0..<length velocities])"

section \<open>Exercise profiles\<close>

text \<open>
  The table \<^verbatim>\<open>self.exercise_params\<close> built by the constructor. Of each entry
  the four keys that \<^verbatim>\<open>detect_reps\<close> reads are kept.
\<close>

record exercise_profile =
  velocity_threshold :: real
  min_rep_duration :: real
  min_rest_duration :: real
  smoothing_window :: nat

definition profile :: "real \<Rightarrow> real \<Rightarrow> real \<Rightarrow> nat \<Rightarrow> exercise_profile" where
  "profile vt rep_d rest_d w =
     \<lparr>velocity_threshold = vt, min_rep_duration = rep_d, min_rest_duration = rest_d,
      smoothing_window = w\<rparr>"

definition exercise_params_table :: "(string \<times> exercise_profile) list" where
  "exercise_params_table =
     [
      (''barbell_bench_press'', profile (3 / 50) (6 / 5) (1 / 2) 7),
      (''dumbbell_bench_press'', profile (1 / 20) (1) (2 / 5) 6),
      (''incline_bench_press'', profile (3 / 50) (11 / 10) (2 / 5) 6),
      (''push_up'', profile (3 / 50) (4 / 5) (3 / 10) 5),
      (''lat_pulldown'', profile (1 / 50) (1 / 5) (1 / 10) 2),
      (''pull_up'', profile (2 / 25) (1) (2 / 5) 6),
      (''seated_cable_row'', profile (1 / 20) (9 / 10) (3 / 10) 5),
      (''barbell_bicep_curl'', profile (1 / 25) (7 / 10) (1 / 5) 3),
      (''dumbbell_bicep_curl'', profile (1 / 25) (3 / 5) (1 / 5) 3),
      (''tricep_pushdown'', profile (1 / 20) (3 / 5) (1 / 5) 3),
      (''skull_crushers'', profile (1 / 25) (4 / 5) (3 / 10) 4),
      (''overhead_tricep_press'', profile (1 / 20) (4 / 5) (3 / 10) 4),
      (''shoulder_press'', profile (3 / 50) (1) (2 / 5) 6),
      (''lateral_raises'', profile (1 / 25) (4 / 5) (3 / 10) 4),
      (''barbell_squat'', profile (2 / 25) (3 / 2) (3 / 5) 8),
      (''dumbbell_goblet_squat'', profile (7 / 100) (13 / 10) (1 / 2) 7),
      (''deadlift'', profile (2 / 25) (6 / 5) (4 / 5) 8),
      (''romanian_deadlift'', profile (7 / 100) (1) (3 / 5) 7),
      (''lunges'', profile (3 / 50) (1) (2 / 5) 6),
      (''calf_raises'', profile (1 / 20) (3 / 5) (1 / 5) 3),
      (''leg_press'', profile (7 / 100) (6 / 5) (1 / 2) 7),
      (''hip_thrust'', profile (3 / 50) (1) (2 / 5) 6),
      (''bench_press'', profile (1 / 20) (4 / 5) (3 / 10) 5),
      (''bicep_curl'', profile (1 / 25) (3 / 5) (1 / 5) 3),
      (''squat'', profile (2 / 25) (1) (2 / 5) 7),
      (''default'', profile (1 / 20) (3 / 5) (1 / 5) 3)
     ]"

definition exercise_params :: "string \<rightharpoonup> exercise_profile" where
  "exercise_params = map_of exercise_params_table"

text \<open>\<^verbatim>\<open>self.exercise_params.get(exercise_type, self.exercise_params['default'])\<close>\<close>

definition get_params :: "string \<Rightarrow> exercise_profile" where
  "get_params exercise_type =
     (case exercise_params exercise_type of
        Some p \<Rightarrow> p
      | None \<Rightarrow> profile (1 / 20) (3 / 5) (1 / 5) 3)"

text \<open>
  \<^verbatim>\<open>override or default\<close> for an optional float argument: \<^verbatim>\<open>None\<close> and
  \<^verbatim>\<open>0.0\<close> are both falsy.
\<close>

definition py_or :: "real option \<Rightarrow> real \<Rightarrow> real" where
  "py_or override dflt =
     (case override of None \<Rightarrow> dflt | Some v \<Rightarrow> if v = 0 then dflt else v)"

section \<open>Rep records\<close>

text \<open>
  A rep dictionary as \<^verbatim>\<open>detect_reps_from_bar_movement\<close> and
  \<^verbatim>\<open>_detect_reps_core\<close> build it and as the scoring functions read it. The
  keys that only the bar-movement path writes are optional.
\<close>

record rep =
  start_time :: real
  end_time :: real
  duration :: real
  start_frame :: int
  end_frame :: int
  avg_velocity :: real
  max_velocity :: "real option"
  min_velocity :: "real option"
  tension_score :: "real option"
  rep_type :: "string option"
  velocity_points :: "nat option"

section \<open>Bar-movement matcher\<close>

text \<open>The entries of the local lists \<^verbatim>\<open>positions\<close>, \<^verbatim>\<open>movements\<close>,
  \<^verbatim>\<open>pull_phases\<close> and \<^verbatim>\<open>reps\<close> of the matcher.\<close>

record position_data =
  pos_frame :: int
  pos_timestamp :: real
  pos_position :: real
  pos_velocity :: real

record movement_data =
  mv_frame :: int
  mv_timestamp :: real
  movement :: real
  mv_position :: real

record pull_phase =
  ph_start_frame :: int
  ph_end_frame :: int
  ph_start_time :: real
  ph_end_time :: real
  ph_duration :: real

record bar_rep =
  br_start_time :: real
  br_end_time :: real
  br_duration :: real
  br_start_frame :: int
  br_end_frame :: int
  pull_duration :: real
  release_duration :: real

text \<open>
  \<^verbatim>\<open>
  movements = []
  for i in range(1, len(positions)):
      prev_pos = positions[i-1]['position']
      curr_pos = positions[i]['position']
      movement = curr_pos - prev_pos
      movements.append({'frame': positions[i]['frame'], 'timestamp': positions[i]['timestamp'],
                        'movement': movement, 'position': curr_pos})
  \<close>
\<close>

definition movements_of :: "position_data list \<Rightarrow> movement_data list" where
  "movements_of positions =
     map (\<lambda>i. let prev_pos = pos_position (positions ! (i - 1));
                   curr_pos = pos_position (positions ! i)
               in \<lparr>mv_frame = pos_frame (positions ! i),
                   mv_timestamp = pos_timestamp (positions ! i),
                   movement = curr_pos - prev_pos,
                   mv_position = curr_pos\<rparr>)
         [1..<length positions]"

text \<open>
  The inner loop of the pull scan,
  \<^verbatim>\<open>while i < len(movements) and movements[i]['movement'] > 0: i += 1\<close>,
  returning the final \<open>i\<close>.
\<close>

function pull_scan :: "movement_data list \<Rightarrow> nat \<Rightarrow> nat" where
  "pull_scan movements i =
     (if i < length movements \<and> 0 < movement (movements ! i)
      then pull_scan movements (i + 1) else i)"
  by pat_completeness auto
termination
  by (relation "measure (\<lambda>(movements, i). length movements - i)") auto

declare pull_scan.simps [simp del]

text \<open>The inner loop of the release scan, with \<^verbatim>\<open>< 0\<close> as its test.\<close>

function release_scan :: "movement_data list \<Rightarrow> nat \<Rightarrow> nat" where
  "release_scan movements i =
     (if i < length movements \<and> movement (movements ! i) < 0
      then release_scan movements (i + 1) else i)"
  by pat_completeness auto
termination
  by (relation "measure (\<lambda>(movements, i). length movements - i)") auto

declare release_scan.simps [simp del]

text \<open>
  \<^verbatim>\<open>
  pull_phases = []
  i = 0
  while i < len(movements):
      if movements[i]['movement'] > 0.005:
          pull_start = i
          while i < len(movements) and movements[i]['movement'] > 0:
              i += 1
          pull_end = i - 1
          if pull_end > pull_start:
              pull_phases.append({'start_frame': movements[pull_start]['frame'],
                                  'end_frame': movements[pull_end]['frame'],
                                  'start_time': movements[pull_start]['timestamp'],
                                  'end_time': movements[pull_end]['timestamp'],
                                  'duration': movements[pull_end]['timestamp'] - movements[pull_start]['timestamp']})
      else:
          i += 1
  \<close>
\<close>

function find_pull_phases :: "movement_data list \<Rightarrow> nat \<Rightarrow> pull_phase list \<Rightarrow> pull_phase list" where
  "find_pull_phases movements i pull_phases =
     (if i < length movements then
        (if 5 / 1000 < movement (movements ! i) then
           (let pull_start = i;
                i' = pull_scan movements i;
                pull_end = i' - 1
            in find_pull_phases movements i'
                 (if pull_start < pull_end
                  then pull_phases @
                       [\<lparr>ph_start_frame = mv_frame (movements ! pull_start),
                         ph_end_frame = mv_frame (movements ! pull_end),
                         ph_start_time = mv_timestamp (movements ! pull_start),
                         ph_end_time = mv_timestamp (movements ! pull_end),
                         ph_duration = mv_timestamp (movements ! pull_end)
                                       - mv_timestamp (movements ! pull_start)\<rparr>]
                  else pull_phases))
         else find_pull_phases movements (i + 1) pull_phases)
      else pull_phases)"
  by pat_completeness auto
termination
proof (relation "measure (\<lambda>(movements, i, pull_phases). length movements - i)", goal_cases)
  case 1
  show ?case by simp
next
  case (2 movements i pull_phases pull_start i' pull_end)
  have ge: "j \<le> pull_scan ms j" for ms j
  proof (induction ms j rule: pull_scan.induct)
    case (1 ms j)
    show ?case
    proof (cases "j < length ms \<and> 0 < movement (ms ! j)")
      case True
      with "1.IH" have "j + 1 \<le> pull_scan ms (j + 1)" by simp
      moreover from True have "pull_scan ms j = pull_scan ms (j + 1)"
        by (subst pull_scan.simps) simp
      ultimately show ?thesis by simp
    next
      case False
      then have "pull_scan ms j = j" by (subst pull_scan.simps) auto
      then show ?thesis by simp
    qed
  qed
  from 2 have "pull_scan movements i = pull_scan movements (i + 1)"
    by (subst pull_scan.simps) simp
  with ge [of "i + 1" movements] have "i < pull_scan movements i" by simp
  with 2 show ?case by simp
next
  case 3
  then show ?case by simp
qed

declare find_pull_phases.simps [simp del]

text \<open>
  The search for the release phase that follows a pull phase:
  \<^verbatim>\<open>
  release_start = None
  release_end = None
  for i, movement in enumerate(movements):
      if movement['frame'] > pull_end_frame:
          if movement['movement'] < -0.005:
              release_start = i
              while i < len(movements) and movements[i]['movement'] < 0:
                  i += 1
              release_end = i - 1
              break
  \<close>
  The result is the pair of \<^verbatim>\<open>release_start\<close> and \<^verbatim>\<open>release_end\<close>, or
  \<open>None\<close> when the loop ends with both still \<^verbatim>\<open>None\<close>.
\<close>

function find_release :: "movement_data list \<Rightarrow> int \<Rightarrow> nat \<Rightarrow> (nat \<times> nat) option" where
  "find_release movements pull_end_frame i =
     (if i < length movements then
        (if pull_end_frame < mv_frame (movements ! i) then
           (if movement (movements ! i) < - (5 / 1000) then
              (let release_start = i;
                   i' = release_scan movements i;
                   release_end = i' - 1
               in Some (release_start, release_end))
            else find_release movements pull_end_frame (i + 1))
         else find_release movements pull_end_frame (i + 1))
      else None)"
  by pat_completeness auto
termination
  by (relation "measure (\<lambda>(movements, pull_end_frame, i). length movements - i)") auto

declare find_release.simps [simp del]

text \<open>
  \<^verbatim>\<open>
  for pull_phase in pull_phases:
      pull_end_frame = pull_phase['end_frame']
      ...
      if release_start is not None and release_end is not None:
          rep = {'start_time': pull_phase['start_time'],
                 'end_time': movements[release_end]['timestamp'],
                 'duration': movements[release_end]['timestamp'] - pull_phase['start_time'],
                 'start_frame': pull_phase['start_frame'],
                 'end_frame': movements[release_end]['frame'],
                 'pull_duration': pull_phase['duration'],
                 'release_duration': movements[release_end]['timestamp'] - movements[release_start]['timestamp']}
          reps.append(rep)
  \<close>
\<close>

fun match_releases :: "movement_data list \<Rightarrow> pull_phase list \<Rightarrow> bar_rep list" where
  "match_releases movements [] = []"
| "match_releases movements (pull_phase # pull_phases) =
     (case find_release movements (ph_end_frame pull_phase) 0 of
        None \<Rightarrow> match_releases movements pull_phases
      | Some (release_start, release_end) \<Rightarrow>
          \<lparr>br_start_time = ph_start_time pull_phase,
           br_end_time = mv_timestamp (movements ! release_end),
           br_duration = mv_timestamp (movements ! release_end) - ph_start_time pull_phase,
           br_start_frame = ph_start_frame pull_phase,
           br_end_frame = mv_frame (movements ! release_end),
           pull_duration = ph_duration pull_phase,
           release_duration = mv_timestamp (movements ! release_end)
                              - mv_timestamp (movements ! release_start)\<rparr>
          # match_releases movements pull_phases)"

text \<open>\<^verbatim>\<open>_detect_bar_movement_reps\<close>, up to its \<^verbatim>\<open>return reps\<close>.\<close>

definition detect_bar_movement_reps :: "position_data list \<Rightarrow> bar_rep list" where
  "detect_bar_movement_reps positions =
     (let movements = movements_of positions;
          pull_phases = find_pull_phases movements 0 []
      in match_releases movements pull_phases)"

text \<open>
  \<^verbatim>\<open>
  for vel_data in velocities:
      if 'position' in vel_data and isinstance(vel_data['position'], (list, tuple)):
          position = vel_data['position'][1]
      else:
          position = vel_data['frame']
      positions.append({'frame': vel_data['frame'], 'timestamp': vel_data['timestamp'],
                        'position': position, 'velocity': vel_data['velocity']})
  \<close>
\<close>

definition position_entry :: "velocity_data \<Rightarrow> position_data" where
  "position_entry vel_data =
     \<lparr>pos_frame = frame vel_data,
      pos_timestamp = timestamp vel_data,
      pos_position = (case position vel_data of
                        Some c \<Rightarrow> fst (snd c)
                      | None \<Rightarrow> of_int (frame vel_data)),
      pos_velocity = velocity vel_data\<rparr>"

text \<open>
  \<^verbatim>\<open>
  for rep in reps:
      rep_velocities = [v for v in velocities if rep['start_frame'] <= v['frame'] <= rep['end_frame']]
      if rep_velocities:
          avg_velocity = sum(v['velocity'] for v in rep_velocities) / len(rep_velocities)
          max_velocity = max(v['velocity'] for v in rep_velocities)
          min_velocity = min(v['velocity'] for v in rep_velocities)
          tension_score = max(0, 100 - (avg_velocity * 50))
          enhanced_reps.append({... 'rep_type': 'bar_movement', 'velocity_points': len(rep_velocities)})
  \<close>
\<close>

fun enhance_reps :: "velocity_data list \<Rightarrow> bar_rep list \<Rightarrow> rep list" where
  "enhance_reps velocities [] = []"
| "enhance_reps velocities (r # reps) =
     (let rep_velocities =
            filter (\<lambda>v. br_start_frame r \<le> frame v \<and> frame v \<le> br_end_frame r) velocities
      in if rep_velocities \<noteq> [] then
           (let avg_v = np_mean (map velocity rep_velocities);
                max_v = py_max (map velocity rep_velocities);
                min_v = py_min (map velocity rep_velocities);
                score = max 0 (100 - avg_v * 50)
            in \<lparr>start_time = br_start_time r,
                end_time = br_end_time r,
                duration = br_duration r,
                start_frame = br_start_frame r,
                end_frame = br_end_frame r,
                avg_velocity = avg_v,
                max_velocity = Some max_v,
                min_velocity = Some min_v,
                tension_score = Some score,
                rep_type = Some ''bar_movement'',
                velocity_points = Some (length rep_velocities)\<rparr>
               # enhance_reps velocities reps)
         else enhance_reps velocities reps)"

definition detect_reps_from_bar_movement :: "velocity_data list \<Rightarrow> string \<Rightarrow> rep list" where
  "detect_reps_from_bar_movement velocities exercise_type =
     (let positions = map position_entry velocities;
          reps = detect_bar_movement_reps positions
      in enhance_reps velocities reps)"

section \<open>The public entry point\<close>

text \<open>
  \<^verbatim>\<open>
  def detect_reps(self, velocities, exercise_type='default', velocity_threshold=None,
                  min_rep_duration=None, min_rest_duration=None):
      if not velocities:
          return []
      params = self.exercise_params.get(exercise_type, self.exercise_params['default'])
      velocity_threshold = velocity_threshold or params['velocity_threshold']
      min_rep_duration = min_rep_duration or params['min_rep_duration']
      min_rest_duration = min_rest_duration or params['min_rest_duration']
      smoothing_window = params['smoothing_window']
      smoothed_velocities = self._smooth_velocity_data(velocities, smoothing_window)
      if exercise_type == 'lat_pulldown':
          reps = self.detect_reps_from_bar_movement(smoothed_velocities, exercise_type)
          return reps
  \<close>
  The body ends there, the next line of the file being the \<^verbatim>\<open>def\<close> of
  \<^verbatim>\<open>detect_reps_from_bar_movement\<close>. A call that falls off the end returns
  Python's \<^verbatim>\<open>None\<close>, which is the result \<open>None\<close> here; a returned list is
  \<open>Some\<close> of it.
\<close>

definition detect_reps ::
  "velocity_data list \<Rightarrow> string \<Rightarrow> real option \<Rightarrow> real option \<Rightarrow> real option \<Rightarrow> rep list option" where
  "detect_reps velocities exercise_type threshold_arg rep_duration_arg rest_duration_arg =
     (if velocities = [] then Some []
      else
        (let params = get_params exercise_type;
             threshold = py_or threshold_arg (velocity_threshold params);
             rep_duration = py_or rep_duration_arg (min_rep_duration params);
             rest_duration = py_or rest_duration_arg (min_rest_duration params);
             window = smoothing_window params;
             smoothed_velocities = smooth_velocity_data velocities window
         in if exercise_type = ''lat_pulldown''
            then Some (detect_reps_from_bar_movement smoothed_velocities exercise_type)
            else None))"

section \<open>Threshold-crossing segmenter\<close>

text \<open>
  \<^verbatim>\<open>
  def _is_significant_movement(self, rep_velocities):
      if not rep_velocities:
          return False
      velocities = [v['velocity'] for v in rep_velocities]
      velocity_range = max(velocities) - min(velocities)
      if velocity_range < 0.03:
          return False
      if len(velocities) < 3:
          return False
      mid_point = len(velocities) // 2
      start_avg = np.mean(velocities[:mid_point//2]) if mid_point > 2 else velocities[0]
      peak_avg = np.mean(velocities[mid_point//2:mid_point + mid_point//2]) if mid_point > 2 else np.mean(velocities)
      end_avg = np.mean(velocities[mid_point + mid_point//2:]) if mid_point > 2 else velocities[-1]
      if peak_avg <= start_avg or peak_avg <= end_avg:
          return False
      return True
  \<close>
\<close>

definition is_significant_movement :: "velocity_data list \<Rightarrow> bool" where
  "is_significant_movement rep_velocities =
     (if rep_velocities = [] then False
      else
        (let velocities = map velocity rep_velocities;
             velocity_range = py_max velocities - py_min velocities
         in if velocity_range < 3 / 100 then False
            else if length velocities < 3 then False
            else
              (let mid_point = length velocities div 2;
                   start_avg = (if 2 < mid_point
                                then np_mean (slice velocities 0 (mid_point div 2))
                                else velocities ! 0);
                   peak_avg = (if 2 < mid_point
                               then np_mean (slice velocities (mid_point div 2)
                                               (mid_point + mid_point div 2))
                               else np_mean velocities);
                   end_avg = (if 2 < mid_point
                              then np_mean (drop (mid_point + mid_point div 2) velocities)
                              else last velocities)
               in if peak_avg \<le> start_avg \<or> peak_avg \<le> end_avg then False
                  else True)))"

text \<open>
  The local variables of the loop of \<^verbatim>\<open>_detect_reps_core\<close>:
  \<^verbatim>\<open>reps\<close>, \<^verbatim>\<open>in_rep\<close>, \<^verbatim>\<open>rep_start_idx\<close> and
  \<^verbatim>\<open>last_rep_end_time\<close>.
\<close>

record core_state =
  cs_reps :: "rep list"
  in_rep :: bool
  rep_start_idx :: nat
  last_rep_end_time :: real

definition core_init :: core_state where
  "core_init = \<lparr>cs_reps = [], in_rep = False, rep_start_idx = 0, last_rep_end_time = 0\<rparr>"

text \<open>
  One iteration of
  \<^verbatim>\<open>
  for i, vel_data in enumerate(velocities):
      velocity = vel_data['velocity']
      timestamp = vel_data['timestamp']
      if not in_rep and velocity > velocity_threshold:
          if timestamp - last_rep_end_time >= min_rest_duration:
              in_rep = True
              rep_start_idx = i
      elif in_rep and velocity < velocity_threshold:
          rep_end_idx = i
          rep_duration = velocities[rep_end_idx]['timestamp'] - velocities[rep_start_idx]['timestamp']
          if rep_duration >= min_rep_duration:
              rep_velocities = velocities[rep_start_idx:rep_end_idx+1]
              if self._is_significant_movement(rep_velocities):
                  avg_velocity = sum(v['velocity'] for v in rep_velocities) / len(rep_velocities)
                  reps.append({'start_time': velocities[rep_start_idx]['timestamp'],
                               'end_time': velocities[rep_end_idx]['timestamp'],
                               'duration': rep_duration,
                               'avg_velocity': avg_velocity,
                               'start_frame': velocities[rep_start_idx]['frame'],
                               'end_frame': velocities[rep_end_idx]['frame']})
                  last_rep_end_time = velocities[rep_end_idx]['timestamp']
          in_rep = False
  \<close>
\<close>

definition core_step ::
  "velocity_data list \<Rightarrow> real \<Rightarrow> real \<Rightarrow> real \<Rightarrow> nat \<Rightarrow> core_state \<Rightarrow> core_state" where
  "core_step velocities threshold min_rep min_rest i s =
     (let vel_data = velocities ! i;
          v = velocity vel_data;
          t = timestamp vel_data
      in if \<not> in_rep s \<and> threshold < v then
           (if min_rest \<le> t - last_rep_end_time s
            then s\<lparr>in_rep := True, rep_start_idx := i\<rparr>
            else s)
         else if in_rep s \<and> v < threshold then
           (let rep_end_idx = i;
                rep_duration = timestamp (velocities ! rep_end_idx)
                               - timestamp (velocities ! rep_start_idx s);
                s' = (if min_rep \<le> rep_duration then
                        (let rep_velocities = slice velocities (rep_start_idx s) (rep_end_idx + 1)
                         in if is_significant_movement rep_velocities then
                              s\<lparr>cs_reps := cs_reps s @
                                   [\<lparr>start_time = timestamp (velocities ! rep_start_idx s),
                                     end_time = timestamp (velocities ! rep_end_idx),
                                     duration = rep_duration,
                                     start_frame = frame (velocities ! rep_start_idx s),
                                     end_frame = frame (velocities ! rep_end_idx),
                                     avg_velocity = np_mean (map velocity rep_velocities),
                                     max_velocity = None,
                                     min_velocity = None,
                                     tension_score = None,
                                     rep_type = None,
                                     velocity_points = None\<rparr>],
                                last_rep_end_time := timestamp (velocities ! rep_end_idx)\<rparr>
                            else s)
                      else s)
            in s'\<lparr>in_rep := False\<rparr>)
         else s)"

text \<open>The loop state after the first \<open>n\<close> iterations.\<close>

definition core_state_after ::
  "velocity_data list \<Rightarrow> real \<Rightarrow> real \<Rightarrow> real \<Rightarrow> nat \<Rightarrow> core_state" where
  "core_state_after velocities threshold min_rep min_rest n =
     fold (core_step velocities threshold min_rep min_rest) [0..<n] core_init"

text \<open>\<^verbatim>\<open>_detect_reps_core\<close>: the list \<^verbatim>\<open>reps\<close> when the loop has run over
  every sample.\<close>

definition detect_reps_core ::
  "velocity_data list \<Rightarrow> real \<Rightarrow> real \<Rightarrow> real \<Rightarrow> rep list" where
  "detect_reps_core velocities threshold min_rep min_rest =
     cs_reps (core_state_after velocities threshold min_rep min_rest (length velocities))"

section \<open>Tension scoring\<close>

text \<open>
  \<^verbatim>\<open>
  def calculate_rep_tension_score(self, rep_data):
      avg_velocity = rep_data['avg_velocity']
      max_velocity = rep_data['max_velocity']
      duration = rep_data['duration']
      velocity_score = max(0, 100 - (avg_velocity * 100))
      control_score = max(0, 100 - (max_velocity * 80))
      duration_score = min(100, duration * 20)
      tension_score = (velocity_score * 0.5 + control_score * 0.3 + duration_score * 0.2)
      return min(100, max(0, tension_score))
  \<close>
  A rep dictionary without the key \<^verbatim>\<open>'max_velocity'\<close> raises \<^verbatim>\<open>KeyError\<close>.
\<close>

definition calculate_rep_tension_score :: "rep \<Rightarrow> error + real" where
  "calculate_rep_tension_score rep_data =
     (case max_velocity rep_data of
        None \<Rightarrow> Inl KeyError
      | Some max_v \<Rightarrow>
          (let velocity_score = max 0 (100 - avg_velocity rep_data * 100);
               control_score = max 0 (100 - max_v * 80);
               duration_score = min 100 (duration rep_data * 20);
               score = velocity_score * (5 / 10) + control_score * (3 / 10)
                       + duration_score * (2 / 10)
           in Inr (min 100 (max 0 score))))"

text \<open>A list comprehension whose element expression may raise: the first error wins.\<close>

fun collect :: "(error + 'a) list \<Rightarrow> error + 'a list" where
  "collect [] = Inr []"
| "collect (Inl e # rs) = Inl e"
| "collect (Inr v # rs) = (case collect rs of Inl e \<Rightarrow> Inl e | Inr vs \<Rightarrow> Inr (v # vs))"

definition key_lookup :: "'a option \<Rightarrow> error + 'a" where
  "key_lookup entry = (case entry of None \<Rightarrow> Inl KeyError | Some v \<Rightarrow> Inr v)"

text \<open>\<^verbatim>\<open>np.linspace(start, stop, n)\<close>, \<^verbatim>\<open>np.average(xs, weights=ws)\<close> and
  \<^verbatim>\<open>round(x, 1)\<close>, which rounds to the nearest tenth, a tie going to the even
  digit.\<close>

definition np_linspace :: "real \<Rightarrow> real \<Rightarrow> nat \<Rightarrow> real list" where
  "np_linspace start stop n =
     (if n = 1 then [start]
      else map (\<lambda>i. start + real i * ((stop - start) / real (n - 1))) [0..<n])"

definition np_average :: "real list \<Rightarrow> real list \<Rightarrow> real" where
  "np_average xs ws = sum_list (map2 (*) xs ws) / sum_list ws"

definition round_half_even :: "real \<Rightarrow> int" where
  "round_half_even x =
     (let f = \<lfloor>x\<rfloor>; d = x - of_int f
      in if d < 1 / 2 then f
         else if 1 / 2 < d then f + 1
         else if even f then f else f + 1)"

definition py_round1 :: "real \<Rightarrow> real" where
  "py_round1 x = of_int (round_half_even (x * 10)) / 10"

text \<open>
  \<^verbatim>\<open>
  def calculate_overall_tension_rating(self, reps):
      """... Returns: Overall tension rating (0-100)"""
      if not reps:
          return 0.0
      if 'tension_score' in reps[0]:
          tension_scores = [rep['tension_score'] for rep in reps]
          avg_tension = sum(tension_scores) / len(tension_scores)
          if len(reps) > 1:
              first_half = reps[:len(reps)//2]
              second_half = reps[len(reps)//2:]
              first_avg_vel = sum(rep['avg_velocity'] for rep in first_half) / len(first_half)
              second_avg_vel = sum(rep['avg_velocity'] for rep in second_half) / len(second_half)
              velocity_decay = (first_avg_vel - second_avg_vel) / first_avg_vel if first_avg_vel > 0 else 0
              decay_bonus = min(20, velocity_decay * 50)
              return min(100, avg_tension + decay_bonus)
          else:
              return avg_tension
      rep_scores = [self.calculate_rep_tension_score(rep) for rep in reps]
      weights = np.linspace(0.8, 1.2, len(rep_scores))
      weighted_score = np.average(rep_scores, weights=weights)
      return round(weighted_score, 1)
  \<close>
\<close>

definition calculate_overall_tension_rating :: "rep list \<Rightarrow> error + real" where
  "calculate_overall_tension_rating reps =
     (if reps = [] then Inr 0
      else if tension_score (hd reps) \<noteq> None then
        (case collect (map (\<lambda>r. key_lookup (tension_score r)) reps) of
           Inl e \<Rightarrow> Inl e
         | Inr tension_scores \<Rightarrow>
             (let avg_tension = sum_list tension_scores / real (length tension_scores)
              in if 1 < length reps then
                   (let first_half = take (length reps div 2) reps;
                        second_half = drop (length reps div 2) reps;
                        first_avg_vel = sum_list (map avg_velocity first_half)
                                        / real (length first_half);
                        second_avg_vel = sum_list (map avg_velocity second_half)
                                         / real (length second_half);
                        velocity_decay = (if 0 < first_avg_vel
                                          then (first_avg_vel - second_avg_vel) / first_avg_vel
                                          else 0);
                        decay_bonus = min 20 (velocity_decay * 50)
                    in Inr (min 100 (avg_tension + decay_bonus)))
                 else Inr avg_tension))
      else
        (case collect (map calculate_rep_tension_score reps) of
           Inl e \<Rightarrow> Inl e
         | Inr rep_scores \<Rightarrow>
             (let weights = np_linspace (8 / 10) (12 / 10) (length rep_scores);
                  weighted_score = np_average rep_scores weights
              in Inr (py_round1 weighted_score))))"

section \<open>Joint velocities from pose data\<close>

text \<open>
  One frame of the pose detector's output: \<^verbatim>\<open>'landmarks'\<close> maps a joint name to
  the list of its positions (left first, then right), each with the keys
  \<^verbatim>\<open>'x'\<close>, \<^verbatim>\<open>'y'\<close>, \<^verbatim>\<open>'z'\<close> and \<^verbatim>\<open>'visibility'\<close>.
\<close>

record landmark =
  lm_x :: real
  lm_y :: real
  lm_z :: real
  lm_visibility :: real

record pose_data =
  landmarks :: "string \<rightharpoonup> landmark list"
  frame_number :: int
  pose_timestamp :: real

text \<open>\<^verbatim>\<open>xs[idx]\<close> for an index \<open>0 \<le> idx\<close>.\<close>

definition list_index :: "'a list \<Rightarrow> nat \<Rightarrow> error + 'a" where
  "list_index xs idx = (if idx < length xs then Inr (xs ! idx) else Inl IndexError)"

text \<open>
  The body of the loop of \<^verbatim>\<open>calculate_joint_velocities\<close>:
  \<^verbatim>\<open>
  prev_frame = pose_data_sequence[i-1]
  curr_frame = pose_data_sequence[i]
  prev_landmarks = prev_frame['landmarks']
  curr_landmarks = curr_frame['landmarks']
  if joint_name not in prev_landmarks or joint_name not in curr_landmarks:
      continue
  joint_idx = 0 if side == 'left' else 1
  prev_pos = prev_landmarks[joint_name][joint_idx]
  curr_pos = curr_landmarks[joint_name][joint_idx]
  prev_coords = (prev_pos['x'], prev_pos['y'], prev_pos['z'])
  curr_coords = (curr_pos['x'], curr_pos['y'], curr_pos['z'])
  time_diff = curr_frame['timestamp'] - prev_frame['timestamp']
  velocity = self.calculate_velocity(prev_coords, curr_coords, time_diff)
  velocities.append({'frame': curr_frame['frame_number'], 'timestamp': curr_frame['timestamp'],
                     'velocity': velocity, 'position': curr_coords})
  \<close>
  The result is the list \<^verbatim>\<open>velocities\<close> after the iteration, or the exception
  that the iteration raises.
\<close>

definition joint_velocity_step ::
  "pose_data \<Rightarrow> pose_data \<Rightarrow> string \<Rightarrow> string \<Rightarrow> velocity_data list
     \<Rightarrow> error + velocity_data list" where
  "joint_velocity_step prev_frame curr_frame joint_name side velocities =
     (case landmarks prev_frame joint_name of
        None \<Rightarrow> Inr velocities
      | Some prev_positions \<Rightarrow>
          (case landmarks curr_frame joint_name of
             None \<Rightarrow> Inr velocities
           | Some curr_positions \<Rightarrow>
               (let joint_idx = (if side = ''left'' then 0 else 1)
                in case list_index prev_positions joint_idx of
                     Inl e \<Rightarrow> Inl e
                   | Inr prev_pos \<Rightarrow>
                       (case list_index curr_positions joint_idx of
                          Inl e \<Rightarrow> Inl e
                        | Inr curr_pos \<Rightarrow>
                            (let prev_coords = (lm_x prev_pos, lm_y prev_pos, lm_z prev_pos);
                                 curr_coords = (lm_x curr_pos, lm_y curr_pos, lm_z curr_pos);
                                 time_diff = pose_timestamp curr_frame - pose_timestamp prev_frame;
                                 v = calculate_velocity prev_coords curr_coords time_diff
                             in Inr (velocities @
                                     [\<lparr>frame = frame_number curr_frame,
                                       timestamp = pose_timestamp curr_frame,
                                       velocity = v,
                                       position = Some curr_coords\<rparr>]))))))"

text \<open>\<^verbatim>\<open>for i in range(1, len(pose_data_sequence))\<close>, stopping at the first
  exception.\<close>

fun joint_velocity_loop ::
  "pose_data list \<Rightarrow> string \<Rightarrow> string \<Rightarrow> nat list \<Rightarrow> velocity_data list
     \<Rightarrow> error + velocity_data list" where
  "joint_velocity_loop pose_data_sequence joint_name side [] velocities = Inr velocities"
| "joint_velocity_loop pose_data_sequence joint_name side (i # rest) velocities =
     (case joint_velocity_step (pose_data_sequence ! (i - 1)) (pose_data_sequence ! i)
             joint_name side velocities of
        Inl e \<Rightarrow> Inl e
      | Inr velocities' \<Rightarrow>
          joint_velocity_loop pose_data_sequence joint_name side rest velocities')"

definition calculate_joint_velocities ::
  "pose_data list \<Rightarrow> string \<Rightarrow> string \<Rightarrow> error + velocity_data list" where
  "calculate_joint_velocities pose_data_sequence joint_name side =
     joint_velocity_loop pose_data_sequence joint_name side
       [1..<length pose_data_sequence] []"

text \<open>
  The sibling accessor of the pose detector, which guards the index:
  \<^verbatim>\<open>
  def get_joint_position(self, pose_data, joint_name, side='left'):
      if joint_name not in pose_data['landmarks']:
          return None
      joint_positions = pose_data['landmarks'][joint_name]
      index = 0 if side == 'left' else 1
      if index >= len(joint_positions):
          return None
      pos = joint_positions[index]
      return (pos['x'], pos['y'], pos['z'])
  \<close>
\<close>

definition get_joint_position :: "pose_data \<Rightarrow> string \<Rightarrow> string \<Rightarrow> (real \<times> real \<times> real) option" where
  "get_joint_position pose joint_name side =
     (case landmarks pose joint_name of
        None \<Rightarrow> None
      | Some joint_positions \<Rightarrow>
          (let index = (if side = ''left'' then 0 else 1)
           in if length joint_positions \<le> index then None
              else (let pos = joint_positions ! index
                    in Some (lm_x pos, lm_y pos, lm_z pos))))"

section \<open>Concrete inputs\<close>

text \<open>
  The position series 0, 1, 2, 3, 2, 1, 0 as the vertical coordinate of seven samples on
  frames 0 to 6 with the uniform time step \<open>dt\<close>; the velocity values are arbitrary.
\<close>

definition ramp_series :: "real \<Rightarrow> (nat \<Rightarrow> real) \<Rightarrow> velocity_data list" where
  "ramp_series dt vel =
     [\<lparr>frame = 0, timestamp = 0 * dt, velocity = vel 0, position = Some (0, 0, 0)\<rparr>,
      \<lparr>frame = 1, timestamp = 1 * dt, velocity = vel 1, position = Some (0, 1, 0)\<rparr>,
      \<lparr>frame = 2, timestamp = 2 * dt, velocity = vel 2, position = Some (0, 2, 0)\<rparr>,
      \<lparr>frame = 3, timestamp = 3 * dt, velocity = vel 3, position = Some (0, 3, 0)\<rparr>,
      \<lparr>frame = 4, timestamp = 4 * dt, velocity = vel 4, position = Some (0, 2, 0)\<rparr>,
      \<lparr>frame = 5, timestamp = 5 * dt, velocity = vel 5, position = Some (0, 1, 0)\<rparr>,
      \<lparr>frame = 6, timestamp = 6 * dt, velocity = vel 6, position = Some (0, 0, 0)\<rparr>]"

text \<open>The same series at 30 frames per second with every velocity 30.\<close>

definition ramp_example :: "velocity_data list" where
  "ramp_example = ramp_series (1 / 30) (\<lambda>i. 30)"

text \<open>
  The velocity series of the boundary scenario, sampled every 0.1 s from time 0, one
  sample per frame.
\<close>

definition scenario_speeds :: "real list" where
  "scenario_speeds =
     [0, 0, 1 / 10, 15 / 100, 2 / 10, 15 / 100, 1 / 10, 2 / 100, 0, 0,
      1 / 10, 15 / 100, 2 / 10, 1 / 10, 2 / 100, 0]"

definition scenario :: "velocity_data list" where
  "scenario =
     map (\<lambda>i. \<lparr>frame = int i, timestamp = real i / 10, velocity = scenario_speeds ! i,
                position = None\<rparr>)
         [0..<16]"

text \<open>
  Two consecutive frames in which the wrist carries a single position, and a pair of
  bar-movement reps of which the second is faster than the first.
\<close>

definition one_sided_frames :: "pose_data list" where
  "one_sided_frames =
     [\<lparr>landmarks = [''wrist'' \<mapsto> [\<lparr>lm_x = 0, lm_y = 0, lm_z = 0, lm_visibility = 1\<rparr>]],
       frame_number = 0, pose_timestamp = 0\<rparr>,
      \<lparr>landmarks = [''wrist'' \<mapsto> [\<lparr>lm_x = 0, lm_y = 1, lm_z = 0, lm_visibility = 1\<rparr>]],
       frame_number = 1, pose_timestamp = 1 / 30\<rparr>]"

definition speeding_reps :: "rep list" where
  "speeding_reps =
     [\<lparr>start_time = 0, end_time = 2, duration = 2, start_frame = 0, end_frame = 60,
       avg_velocity = 1 / 2, max_velocity = Some 1, min_velocity = Some 0,
       tension_score = Some 75, rep_type = Some ''bar_movement'',
       velocity_points = Some 61\<rparr>,
      \<lparr>start_time = 3, end_time = 4, duration = 1, start_frame = 90, end_frame = 120,
       avg_velocity = 2, max_velocity = Some 3, min_velocity = Some 1,
       tension_score = Some 0, rep_type = Some ''bar_movement'',
       velocity_points = Some 31\<rparr>]"

text \<open>
  The significance test as the specification words it, on the speeds of an interval:
  rejected when the range is below 0.03, or there are fewer than three samples, or, the
  interval being split into thirds, the mean of the middle third is not strictly greater
  than both the mean of the first third and the mean of the last third.
\<close>

definition thirds_rejects :: "real list \<Rightarrow> bool" where
  "thirds_rejects speeds =
     (let k = length speeds div 3;
          first_third = take k speeds;
          middle_third = take k (drop k speeds);
          last_third = drop (2 * k) speeds
      in py_max speeds - py_min speeds < 3 / 100
         \<or> length speeds < 3
         \<or> np_mean middle_third \<le> np_mean first_third
         \<or> np_mean middle_third \<le> np_mean last_third)"

text \<open>An interval of six samples whose peak lies in the second sample.\<close>

definition early_peak :: "velocity_data list" where
  "early_peak =
     [\<lparr>frame = 0, timestamp = 0, velocity = 0, position = None\<rparr>,
      \<lparr>frame = 1, timestamp = 1 / 10, velocity = 1, position = None\<rparr>,
      \<lparr>frame = 2, timestamp = 2 / 10, velocity = 1 / 2, position = None\<rparr>,
      \<lparr>frame = 3, timestamp = 3 / 10, velocity = 1 / 2, position = None\<rparr>,
      \<lparr>frame = 4, timestamp = 4 / 10, velocity = 0, position = None\<rparr>,
      \<lparr>frame = 5, timestamp = 5 / 10, velocity = 0, position = None\<rparr>]"

section \<open>Properties\<close>

subsection \<open>Velocity extraction\<close>



subsection \<open>Smoothing\<close>

lemma length_smooth_velocity_data:
  "length (smooth_velocity_data velocities window_size) = length velocities"
  by (simp add: smooth_velocity_data_def)

lemma smooth_at_fields:
  "frame (smooth_at velocities window_size i) = frame (velocities ! i)"
  "timestamp (smooth_at velocities window_size i) = timestamp (velocities ! i)"
  "position (smooth_at velocities window_size i) = position (velocities ! i)"
  by (simp_all add: smooth_at_def Let_def)

lemma smooth_map_field:
  assumes "\<And>i. f (smooth_at velocities window_size i) = f (velocities ! i)"
  shows "map f (smooth_velocity_data velocities window_size) = map f velocities"
proof (cases "length velocities < window_size")
  case True
  then show ?thesis by (simp add: smooth_velocity_data_def)
next
  case False
  have "map f (map (smooth_at velocities window_size) [0..<length velocities]) = map f velocities"
    by (rule nth_equalityI) (simp_all add: assms)
  with False show ?thesis by (simp add: smooth_velocity_data_def)
qed

text \<open>
  Claim C10. The smoother returns a list of the length of its input whose samples keep
  their frame index, timestamp and position, only the velocity being replaced; and an
  input strictly shorter than the window is returned as it is.
\<close>

theorem smooth_velocity_data_frame:
  "length (smooth_velocity_data velocities window_size) = length velocities \<and>
   map frame (smooth_velocity_data velocities window_size) = map frame velocities \<and>
   map timestamp (smooth_velocity_data velocities window_size) = map timestamp velocities \<and>
   map position (smooth_velocity_data velocities window_size) = map position velocities \<and>
   (length velocities < window_size \<longrightarrow>
      smooth_velocity_data velocities window_size = velocities)"
  using smooth_map_field [of frame velocities window_size]
        smooth_map_field [of timestamp velocities window_size]
        smooth_map_field [of position velocities window_size]
  by (simp add: smooth_at_fields length_smooth_velocity_data)
     (simp add: smooth_velocity_data_def)

theorem smooth_velocity_data_frame_witness:
  "length [\<lparr>frame = 1, timestamp = 1 / 30, velocity = 3, position = Some (0, 1, 0)\<rparr>,
           \<lparr>frame = 2, timestamp = 2 / 30, velocity = 6, position = None\<rparr>] < (3::nat) \<and>
   smooth_velocity_data
     [\<lparr>frame = 1, timestamp = 1 / 30, velocity = 3, position = Some (0, 1, 0)\<rparr>,
      \<lparr>frame = 2, timestamp = 2 / 30, velocity = 6, position = None\<rparr>] 3 =
     [\<lparr>frame = 1, timestamp = 1 / 30, velocity = 3, position = Some (0, 1, 0)\<rparr>,
      \<lparr>frame = 2, timestamp = 2 / 30, velocity = 6, position = None\<rparr>] \<and>
   map frame (smooth_velocity_data
     [\<lparr>frame = 1, timestamp = 1 / 30, velocity = 3, position = Some (0, 1, 0)\<rparr>,
      \<lparr>frame = 2, timestamp = 2 / 30, velocity = 6, position = None\<rparr>] 2) = [1, 2]"
  using smooth_velocity_data_frame
    [of "[\<lparr>frame = 1, timestamp = 1 / 30, velocity = 3, position = Some (0, 1, 0)\<rparr>,
          \<lparr>frame = 2, timestamp = 2 / 30, velocity = 6, position = None\<rparr>]" 3]
    smooth_velocity_data_frame
    [of "[\<lparr>frame = 1, timestamp = 1 / 30, velocity = 3, position = Some (0, 1, 0)\<rparr>,
          \<lparr>frame = 2, timestamp = 2 / 30, velocity = 6, position = None\<rparr>]" 2]
  by simp

subsection \<open>The public entry point\<close>

text \<open>
  Claim C1. For a non-empty velocity sequence and an exercise type other than
  \<open>lat_pulldown\<close>, \<open>detect_reps\<close> returns Python's \<open>None\<close> and no list of reps,
  whatever the overrides: parameters are resolved and the input is smoothed, and only the
  \<open>lat_pulldown\<close> branch returns.
\<close>

theorem detect_reps_falls_through:
  assumes "velocities \<noteq> []" and "exercise_type \<noteq> ''lat_pulldown''"
  shows "detect_reps velocities exercise_type threshold_arg rep_duration_arg rest_duration_arg
         = None"
  using assms by (simp add: detect_reps_def Let_def)

theorem detect_reps_falls_through_witness:
  "ramp_example \<noteq> [] \<and> ''squat'' \<noteq> ''lat_pulldown'' \<and>
   detect_reps ramp_example ''squat'' None (Some 1) None = None"
proof -
  have ne: "ramp_example \<noteq> []" by (simp add: ramp_example_def ramp_series_def)
  have ty: "''squat'' \<noteq> ''lat_pulldown''" by simp
  from detect_reps_falls_through [OF ne ty] ne ty show ?thesis by simp
qed

text \<open>
  Claim C2. On an empty velocity stream \<open>detect_reps\<close> and
  \<open>detect_reps_from_bar_movement\<close> both return the empty list of reps, neither
  raising.
\<close>

theorem empty_stream_gives_no_reps:
  "detect_reps [] exercise_type threshold_arg rep_duration_arg rest_duration_arg = Some [] \<and>
   detect_reps_from_bar_movement [] exercise_type = []"
  by (simp add: detect_reps_def detect_reps_from_bar_movement_def detect_bar_movement_reps_def
        movements_of_def find_pull_phases.simps)

subsection \<open>Joint velocities\<close>

text \<open>
  Claim C3. \<open>calculate_joint_velocities\<close> is to return normally on every pose
  sequence whose joints carry one or two positions. On two frames whose wrist has a
  single position it raises \<open>IndexError\<close> when the right side is asked for, where the
  accessor \<open>get_joint_position\<close> of the pose detector returns \<open>None\<close>; the left side of
  the same frames yields one velocity sample.
\<close>

theorem calculate_joint_velocities_one_sided:
  "calculate_joint_velocities one_sided_frames ''wrist'' ''right'' = Inl IndexError \<and>
   get_joint_position (one_sided_frames ! 0) ''wrist'' ''right'' = None \<and>
   calculate_joint_velocities one_sided_frames ''wrist'' ''left'' =
     Inr [\<lparr>frame = 1, timestamp = 1 / 30, velocity = 30, position = Some (0, 1, 0)\<rparr>]"
  by (simp add: calculate_joint_velocities_def one_sided_frames_def joint_velocity_step_def
        list_index_def get_joint_position_def calculate_velocity_def upt_rec)

subsection \<open>Tension scoring\<close>

text \<open>
  Claim C5. The overall rating is to lie between 0 and 100 for every non-empty rep
  sequence. For two reps with tension scores 75 and 0 and average velocities 0.5 and 2
  the decay bonus is \<open>-150\<close> and the rating \<open>-112.5\<close>.
\<close>

theorem overall_rating_below_zero:
  "calculate_overall_tension_rating speeding_reps = Inr (- (225 / 2))"
  by (simp add: calculate_overall_tension_rating_def speeding_reps_def key_lookup_def)

text \<open>
  Claim C6. For a rep with average velocity, maximal velocity and duration the per-rep
  score is \<open>0.5 * velocity_score + 0.3 * control_score + 0.2 * duration_score\<close>
  clamped to the interval from 0 to 100, with
  \<open>velocity_score = max 0 (100 - avg_velocity * 100)\<close>,
  \<open>control_score = max 0 (100 - max_velocity * 80)\<close> and
  \<open>duration_score = min 100 (duration * 20)\<close>.
\<close>

theorem rep_tension_score_formula:
  assumes "max_velocity rep_data = Some max_v"
  shows "\<exists>score. calculate_rep_tension_score rep_data = Inr score \<and>
           score = min 100 (max 0
                     (0.5 * max 0 (100 - avg_velocity rep_data * 100)
                      + 0.3 * max 0 (100 - max_v * 80)
                      + 0.2 * min 100 (duration rep_data * 20))) \<and>
           0 \<le> score \<and> score \<le> 100"
  using assms by (simp add: calculate_rep_tension_score_def Let_def mult.commute)

theorem rep_tension_score_formula_witness:
  "max_velocity (speeding_reps ! 0) = Some 1 \<and>
   calculate_rep_tension_score (speeding_reps ! 0) = Inr 39"
proof -
  have mv: "max_velocity (speeding_reps ! 0) = Some 1" by (simp add: speeding_reps_def)
  from rep_tension_score_formula [OF mv] mv show ?thesis
    by (auto simp add: speeding_reps_def)
qed

subsection \<open>Bar-movement matcher\<close>

lemma ramp_movements:
  "movements_of (map position_entry (ramp_series dt vel)) =
     [\<lparr>mv_frame = 1, mv_timestamp = 1 * dt, movement = 1, mv_position = 1\<rparr>,
      \<lparr>mv_frame = 2, mv_timestamp = 2 * dt, movement = 1, mv_position = 2\<rparr>,
      \<lparr>mv_frame = 3, mv_timestamp = 3 * dt, movement = 1, mv_position = 3\<rparr>,
      \<lparr>mv_frame = 4, mv_timestamp = 4 * dt, movement = - 1, mv_position = 2\<rparr>,
      \<lparr>mv_frame = 5, mv_timestamp = 5 * dt, movement = - 1, mv_position = 1\<rparr>,
      \<lparr>mv_frame = 6, mv_timestamp = 6 * dt, movement = - 1, mv_position = 0\<rparr>]"
  by (simp add: movements_of_def ramp_series_def position_entry_def upt_rec)

lemma ramp_pull_phases:
  "find_pull_phases (movements_of (map position_entry (ramp_series dt vel))) 0 [] =
     [\<lparr>ph_start_frame = 1, ph_end_frame = 3, ph_start_time = 1 * dt, ph_end_time = 3 * dt,
       ph_duration = 3 * dt - 1 * dt\<rparr>]"
  unfolding ramp_movements
  by (simp add: find_pull_phases.simps pull_scan.simps)

lemma ramp_release:
  "find_release (movements_of (map position_entry (ramp_series dt vel))) 3 0 = Some (3, 5)"
  unfolding ramp_movements
  by (simp add: find_release.simps release_scan.simps)

lemma ramp_bar_reps:
  "detect_bar_movement_reps (map position_entry (ramp_series dt vel)) =
     [\<lparr>br_start_time = 1 * dt, br_end_time = 6 * dt, br_duration = 6 * dt - 1 * dt,
       br_start_frame = 1, br_end_frame = 6, pull_duration = 3 * dt - 1 * dt,
       release_duration = 6 * dt - 4 * dt\<rparr>]"
  unfolding detect_bar_movement_reps_def Let_def ramp_pull_phases
  by (simp add: ramp_release) (simp add: ramp_movements)

text \<open>
  Claim C4, as the code has it. For the position series 0, 1, 2, 3, 2, 1, 0 on frames 0 to
  6 with a uniform time step, the bar-movement matcher emits exactly one rep. It ends on
  the last frame and starts on frame 1, the frame of the first displacement, not on
  frame 0: a displacement belongs to the later of its two frames. The rep arises from one
  pull phase of three displacements (frames 1 to 3) and one release phase of three
  displacements (frames 4 to 6).
\<close>

theorem bar_movement_ramp_one_rep:
  "map (\<lambda>r. (start_frame r, end_frame r))
       (detect_reps_from_bar_movement (ramp_series dt vel) exercise_type) = [(1, 6)] \<and>
   map (\<lambda>r. (br_start_frame r, br_end_frame r))
       (detect_bar_movement_reps (map position_entry (ramp_series dt vel))) = [(1, 6)] \<and>
   map (\<lambda>p. (ph_start_frame p, ph_end_frame p))
       (find_pull_phases (movements_of (map position_entry (ramp_series dt vel))) 0 [])
     = [(1, 3)] \<and>
   find_release (movements_of (map position_entry (ramp_series dt vel))) 3 0 = Some (3, 5) \<and>
   map mv_frame (movements_of (map position_entry (ramp_series dt vel))) = [1, 2, 3, 4, 5, 6]"
proof -
  have "map (\<lambda>r. (start_frame r, end_frame r))
          (detect_reps_from_bar_movement (ramp_series dt vel) exercise_type) = [(1, 6)]"
    unfolding detect_reps_from_bar_movement_def Let_def ramp_bar_reps
    by (simp add: ramp_series_def Let_def)
  moreover have "map (\<lambda>r. (br_start_frame r, br_end_frame r))
       (detect_bar_movement_reps (map position_entry (ramp_series dt vel))) = [(1, 6)]"
    by (simp add: ramp_bar_reps)
  moreover have "map (\<lambda>p. (ph_start_frame p, ph_end_frame p))
       (find_pull_phases (movements_of (map position_entry (ramp_series dt vel))) 0 [])
     = [(1, 3)]"
    by (simp add: ramp_pull_phases)
  moreover have "map mv_frame (movements_of (map position_entry (ramp_series dt vel)))
     = [1, 2, 3, 4, 5, 6]"
    by (simp add: ramp_movements)
  ultimately show ?thesis
    using ramp_release [of dt vel] by blast
qed

text \<open>
  At 30 frames per second the single rep does not start on the first frame of the series.
\<close>

theorem bar_movement_ramp_full_range_counterexample:
  "\<not> (length (detect_reps_from_bar_movement ramp_example ''lat_pulldown'') = 1 \<and>
      start_frame (hd (detect_reps_from_bar_movement ramp_example ''lat_pulldown''))
        = frame (hd ramp_example) \<and>
      end_frame (hd (detect_reps_from_bar_movement ramp_example ''lat_pulldown''))
        = frame (last ramp_example))"
proof -
  have "start_frame (hd (detect_reps_from_bar_movement ramp_example ''lat_pulldown'')) = 1"
    unfolding ramp_example_def detect_reps_from_bar_movement_def Let_def ramp_bar_reps
    by (simp add: ramp_series_def Let_def)
  moreover have "frame (hd ramp_example) = 0"
    by (simp add: ramp_example_def ramp_series_def)
  ultimately show ?thesis by simp
qed

subsection \<open>Threshold-crossing segmenter\<close>

lemma scenario_list:
  "scenario =
     [\<lparr>frame = 0, timestamp = 0 / 10, velocity = 0, position = None\<rparr>,
      \<lparr>frame = 1, timestamp = 1 / 10, velocity = 0, position = None\<rparr>,
      \<lparr>frame = 2, timestamp = 2 / 10, velocity = 1 / 10, position = None\<rparr>,
      \<lparr>frame = 3, timestamp = 3 / 10, velocity = 15 / 100, position = None\<rparr>,
      \<lparr>frame = 4, timestamp = 4 / 10, velocity = 2 / 10, position = None\<rparr>,
      \<lparr>frame = 5, timestamp = 5 / 10, velocity = 15 / 100, position = None\<rparr>,
      \<lparr>frame = 6, timestamp = 6 / 10, velocity = 1 / 10, position = None\<rparr>,
      \<lparr>frame = 7, timestamp = 7 / 10, velocity = 2 / 100, position = None\<rparr>,
      \<lparr>frame = 8, timestamp = 8 / 10, velocity = 0, position = None\<rparr>,
      \<lparr>frame = 9, timestamp = 9 / 10, velocity = 0, position = None\<rparr>,
      \<lparr>frame = 10, timestamp = 10 / 10, velocity = 1 / 10, position = None\<rparr>,
      \<lparr>frame = 11, timestamp = 11 / 10, velocity = 15 / 100, position = None\<rparr>,
      \<lparr>frame = 12, timestamp = 12 / 10, velocity = 2 / 10, position = None\<rparr>,
      \<lparr>frame = 13, timestamp = 13 / 10, velocity = 1 / 10, position = None\<rparr>,
      \<lparr>frame = 14, timestamp = 14 / 10, velocity = 2 / 100, position = None\<rparr>,
      \<lparr>frame = 15, timestamp = 15 / 10, velocity = 0, position = None\<rparr>]"
  by (simp add: scenario_def scenario_speeds_def upt_rec)

lemma scenario_states:
  "map (core_state_after scenario (5 / 100) 1 (3 / 10))
       [0, 1, 2, 3, 4, 5, 6, 7, 8, 9, 10, 11, 12, 13, 14, 15, 16] =
     [core_init,
      core_init,
      core_init,
      core_init,
      core_init\<lparr>in_rep := True, rep_start_idx := 3\<rparr>,
      core_init\<lparr>in_rep := True, rep_start_idx := 3\<rparr>,
      core_init\<lparr>in_rep := True, rep_start_idx := 3\<rparr>,
      core_init\<lparr>in_rep := True, rep_start_idx := 3\<rparr>,
      core_init\<lparr>in_rep := False, rep_start_idx := 3\<rparr>,
      core_init\<lparr>in_rep := False, rep_start_idx := 3\<rparr>,
      core_init\<lparr>in_rep := False, rep_start_idx := 3\<rparr>,
      core_init\<lparr>in_rep := True, rep_start_idx := 10\<rparr>,
      core_init\<lparr>in_rep := True, rep_start_idx := 10\<rparr>,
      core_init\<lparr>in_rep := True, rep_start_idx := 10\<rparr>,
      core_init\<lparr>in_rep := True, rep_start_idx := 10\<rparr>,
      core_init\<lparr>in_rep := False, rep_start_idx := 10\<rparr>,
      core_init\<lparr>in_rep := False, rep_start_idx := 10\<rparr>]"
  unfolding scenario_list
  by (simp add: core_state_after_def core_step_def core_init_def upt_rec Let_def)

text \<open>
  Claim C8. With threshold 0.05, minimal rep duration 1.0 s and minimal rest 0.3 s, on
  the sixteen samples of the scenario taken every 0.1 s, the threshold-crossing segmenter
  enters a rep twice (at samples 3 and 10) and leaves it twice (at samples 7 and 14), and
  accepts no rep: both candidates last 0.4 s, less than the minimal duration.
\<close>

theorem scenario_two_crossings_no_rep:
  "detect_reps_core scenario (5 / 100) 1 (3 / 10) = [] \<and>
   map (\<lambda>n. in_rep (core_state_after scenario (5 / 100) 1 (3 / 10) n)) [0..<17] =
     [False, False, False, False, True, True, True, True, False, False, False,
      True, True, True, True, False, False] \<and>
   rep_start_idx (core_state_after scenario (5 / 100) 1 (3 / 10) 7) = 3 \<and>
   timestamp (scenario ! 7) - timestamp (scenario ! 3) = 4 / 10 \<and>
   rep_start_idx (core_state_after scenario (5 / 100) 1 (3 / 10) 14) = 10 \<and>
   timestamp (scenario ! 14) - timestamp (scenario ! 10) = 4 / 10 \<and>
   (4 / 10 :: real) < 1"
proof -
  let ?after = "core_state_after scenario (5 / 100) 1 (3 / 10)"
  have idx: "[0..<17] = [0, 1, 2, 3, 4, 5, 6, 7, 8, 9, 10, 11, 12, 13, 14, 15, 16 :: nat]"
    by (simp add: upt_rec)
  note all = scenario_states
  have len: "length scenario = 16" by (simp add: scenario_def)
  from all have "cs_reps (?after 16) = []" by (simp add: core_init_def)
  with len have "detect_reps_core scenario (5 / 100) 1 (3 / 10) = []"
    by (simp add: detect_reps_core_def)
  moreover have "map (\<lambda>n. in_rep (?after n)) [0..<17] =
     [False, False, False, False, True, True, True, True, False, False, False,
      True, True, True, True, False, False]"
  proof -
    have "map (\<lambda>n. in_rep (?after n)) [0..<17] = map in_rep (map ?after [0..<17])"
      by (simp add: comp_def)
    then show ?thesis
      unfolding idx scenario_states by (simp add: core_init_def)
  qed
  moreover from all have "rep_start_idx (?after 7) = 3" and "rep_start_idx (?after 14) = 10"
    by simp_all
  moreover have "timestamp (scenario ! 7) - timestamp (scenario ! 3) = 4 / 10"
    and "timestamp (scenario ! 14) - timestamp (scenario ! 10) = 4 / 10"
    unfolding scenario_list by simp_all
  ultimately show ?thesis by simp
qed

text \<open>
  Claim C7, as the code has it. An interval is accepted exactly when it has at least
  three samples, its speeds span at least 0.03, and its peak window has a mean strictly
  greater than those of its start and end windows. With \<open>m\<close> half the number of samples
  and \<open>q\<close> half of \<open>m\<close> (both rounded down), for \<open>m > 2\<close> the start window is the first
  \<open>q\<close> samples, the peak window the next \<open>m\<close> samples and the end window the rest; for
  three to five samples the start is the first sample, the end is the last sample and the
  peak is the mean of all samples. The windows are not thirds.
\<close>

theorem is_significant_movement_windows:
  "is_significant_movement rep_velocities =
     (let vs = map velocity rep_velocities;
          m = length vs div 2;
          q = m div 2
      in 3 \<le> length vs \<and> 3 / 100 \<le> py_max vs - py_min vs \<and>
         (if 2 < m
          then np_mean (take q vs) < np_mean (take m (drop q vs)) \<and>
               np_mean (drop (m + q) vs) < np_mean (take m (drop q vs))
          else hd vs < np_mean vs \<and> last vs < np_mean vs))"
proof (cases "rep_velocities = []")
  case True
  then show ?thesis by (simp add: is_significant_movement_def)
next
  case False
  then have "map velocity rep_velocities ! 0 = hd (map velocity rep_velocities)"
    by (simp add: hd_conv_nth)
  with False show ?thesis
    by (auto simp add: is_significant_movement_def Let_def slice_def not_le not_less)
qed

text \<open>
  A six-sample interval with an early peak is accepted, although the mean of its middle
  third does not exceed the mean of its first third.
\<close>

theorem thirds_split_counterexample:
  "is_significant_movement early_peak \<and> thirds_rejects (map velocity early_peak)"
  by (simp add: is_significant_movement_def thirds_rejects_def early_peak_def Let_def
        slice_def np_mean_def)

end
